theory Spec2Isabelle
  imports Complex_Main "HOL-Library.AList"
begin

section \<open>JavaScript values\<close>

text \<open>
  The type guards of the library take values of unknown shape (\<^verbatim>\<open>obj: any\<close>, or a union
  type that is erased at run time), so the model works on untyped JavaScript data: the
  values that JSON and the structured clone of \<^verbatim>\<open>postMessage\<close> carry. An object is
  an association list of its own enumerable properties; the first binding of a key is the
  property's value. A property may be present and hold \<^verbatim>\<open>undefined\<close>.

  Numbers are only tested for truthiness and compared with strings, never computed with:
  a number is NaN, an infinity (with its sign) or a finite rational.
\<close>

datatype jsnum = NaN | Infinity bool | Finite rat

datatype jsval =
    JUndefined
  | JNull
  | JBool bool
  | JNum jsnum
  | JStr string
  | JArr "jsval list"
  | JObj "(string \<times> jsval) list"

text \<open>The only exception the code under study can raise.\<close>

datatype error = TypeError

text \<open>\<^verbatim>\<open>!!v\<close>, and the test of \<^verbatim>\<open>v || w\<close>: ECMAScript's ToBoolean.\<close>

fun ToBoolean :: "jsval \<Rightarrow> bool" where
  "ToBoolean JUndefined = False"
| "ToBoolean JNull = False"
| "ToBoolean (JBool b) = b"
| "ToBoolean (JNum n) = (n \<noteq> NaN \<and> n \<noteq> Finite 0)"
| "ToBoolean (JStr s) = (s \<noteq> [])"
| "ToBoolean (JArr xs) = True"
| "ToBoolean (JObj ps) = True"

text \<open>
  Array and string indices are the canonical decimal keys \<^verbatim>\<open>"0"\<close>, \<^verbatim>\<open>"1"\<close>, ...
  (no sign, no leading zero).
\<close>

definition is_index_key :: "string \<Rightarrow> bool" where
  "is_index_key k =
     (k \<noteq> [] \<and> list_all (\<lambda>c. c \<in> set ''0123456789'') k \<and> (k = ''0'' \<or> hd k \<noteq> CHR ''0''))"

definition key_to_nat :: "string \<Rightarrow> nat" where
  "key_to_nat k = foldl (\<lambda>n c. 10 * n + (of_char c - 48)) 0 k"

text \<open>The own property \<^verbatim>\<open>k\<close> of an object, \<^verbatim>\<open>undefined\<close> when it has none.\<close>

definition obj_get :: "(string \<times> jsval) list \<Rightarrow> string \<Rightarrow> jsval" where
  "obj_get ps k = (case map_of ps k of None \<Rightarrow> JUndefined | Some v \<Rightarrow> v)"

text \<open>
  The property read \<^verbatim>\<open>v.k\<close>, also the read that an object pattern
  \<^verbatim>\<open>{ k: ... } = v\<close> performs. On \<^verbatim>\<open>null\<close> and \<^verbatim>\<open>undefined\<close> it raises
  TypeError. Objects answer with their own property, arrays and strings with their
  length and elements, numbers and booleans with \<^verbatim>\<open>undefined\<close>. Members inherited
  from the built-in prototypes (\<^verbatim>\<open>toString\<close>, \<^verbatim>\<open>constructor\<close>, ...) are not
  modelled: no key that the library reads names one.
\<close>

fun Get :: "jsval \<Rightarrow> string \<Rightarrow> error + jsval" where
  "Get JUndefined k = Inl TypeError"
| "Get JNull k = Inl TypeError"
| "Get (JBool b) k = Inr JUndefined"
| "Get (JNum n) k = Inr JUndefined"
| "Get (JStr s) k =
     (if k = ''length'' then Inr (JNum (Finite (of_nat (length s))))
      else if is_index_key k \<and> key_to_nat k < length s then Inr (JStr [s ! key_to_nat k])
      else Inr JUndefined)"
| "Get (JArr xs) k =
     (if k = ''length'' then Inr (JNum (Finite (of_nat (length xs))))
      else if is_index_key k \<and> key_to_nat k < length xs then Inr (xs ! key_to_nat k)
      else Inr JUndefined)"
| "Get (JObj ps) k = Inr (obj_get ps k)"

text \<open>
  A default in a destructuring pattern, \<^verbatim>\<open>{ k: pattern = d }\<close>: the default replaces
  the value read exactly when that value is \<^verbatim>\<open>undefined\<close>; \<^verbatim>\<open>null\<close> stays.
\<close>

definition withDefault :: "jsval \<Rightarrow> jsval \<Rightarrow> jsval" where
  "withDefault v d = (if v = JUndefined then d else v)"

text \<open>\<^verbatim>\<open>v === 'literal'\<close>: strict equality with a string never coerces.\<close>

definition StrictEqualsString :: "jsval \<Rightarrow> string \<Rightarrow> bool" where
  "StrictEqualsString v s = (v = JStr s)"

section \<open>embedding/common.ts: the event name of an envelope\<close>

text \<open>
  \<^verbatim>\<open>
  export function getEventType(obj: any): string {
      const { gdc: { event: { name = '' } = {} } = {} } = obj || {};
      return name;
  }
  \<close>
\<close>

definition getEventType :: "jsval \<Rightarrow> error + jsval" where
  "getEventType obj =
     (case Get (if ToBoolean obj then obj else JObj []) ''gdc'' of
        Inl e \<Rightarrow> Inl e
      | Inr gdc \<Rightarrow>
          (case Get (withDefault gdc (JObj [])) ''event'' of
             Inl e \<Rightarrow> Inl e
           | Inr event \<Rightarrow>
               (case Get (withDefault event (JObj [])) ''name'' of
                  Inl e \<Rightarrow> Inl e
                | Inr name \<Rightarrow> Inr (withDefault name (JStr '''')))))"

text \<open>
  \<^verbatim>\<open>getEventType(obj) === literal\<close>: the call may raise, the comparison cannot.
\<close>

definition strictEq :: "error + jsval \<Rightarrow> string \<Rightarrow> error + bool" where
  "strictEq r s = (case r of Inl e \<Rightarrow> Inl e | Inr v \<Rightarrow> Inr (StrictEqualsString v s))"

subsection \<open>The string enums of common.ts\<close>

definition GdcProductName_ANALYTICAL_DESIGNER :: string where
  "GdcProductName_ANALYTICAL_DESIGNER = ''analyticalDesigner''"

definition GdcProductName_KPI_DASHBOARDS :: string where
  "GdcProductName_KPI_DASHBOARDS = ''dashboards''"

definition GdcEventType_AppCommandFailed :: string where
  "GdcEventType_AppCommandFailed = ''appCommandFailed''"

definition GdcErrorType_InvalidCommand :: string where
  "GdcErrorType_InvalidCommand = ''error:invalidCommand''"

definition GdcErrorType_InvalidArgument :: string where
  "GdcErrorType_InvalidArgument = ''error:invalidArgument''"

definition GdcErrorType_InvalidState :: string where
  "GdcErrorType_InvalidState = ''error:invalidState''"

definition GdcErrorType_RuntimeError :: string where
  "GdcErrorType_RuntimeError = ''error:runtime''"

text \<open>
  \<^verbatim>\<open>
  export function isCommandFailedData<Product>(obj: any): obj is CommandFailedData<Product> {
      return getEventType(obj) === GdcEventType.AppCommandFailed;
  }
  \<close>
\<close>

definition isCommandFailedData :: "jsval \<Rightarrow> error + bool" where
  "isCommandFailedData obj = strictEq (getEventType obj) GdcEventType_AppCommandFailed"

section \<open>embedding/ad.ts: namespace EmbeddedAnalyticalDesigner\<close>

subsection \<open>enum GdcAdCommandType\<close>

definition GdcAdCommandType_DrillableItems :: string where
  "GdcAdCommandType_DrillableItems = ''drillableItems''"

definition GdcAdCommandType_OpenInsight :: string where
  "GdcAdCommandType_OpenInsight = ''openInsight''"

definition GdcAdCommandType_Save :: string where
  "GdcAdCommandType_Save = ''saveInsight''"

definition GdcAdCommandType_SaveAs :: string where
  "GdcAdCommandType_SaveAs = ''saveAsInsight''"

definition GdcAdCommandType_Export :: string where
  "GdcAdCommandType_Export = ''exportInsight''"

definition GdcAdCommandType_Clear :: string where
  "GdcAdCommandType_Clear = ''clear''"

definition GdcAdCommandType_Undo :: string where
  "GdcAdCommandType_Undo = ''undo''"

definition GdcAdCommandType_Redo :: string where
  "GdcAdCommandType_Redo = ''redo''"

definition GdcAdCommandType_SetFilterContext :: string where
  "GdcAdCommandType_SetFilterContext = ''setFilterContext''"

definition GdcAdCommandType_RemoveFilterContext :: string where
  "GdcAdCommandType_RemoveFilterContext = ''removeFilterContext''"

subsection \<open>enum GdcAdEventType\<close>

definition GdcAdEventType_ListeningForDrillableItems :: string where
  "GdcAdEventType_ListeningForDrillableItems = ''listeningForDrillableItems''"

definition GdcAdEventType_NewInsightInitialized :: string where
  "GdcAdEventType_NewInsightInitialized = ''newInsightInitialized''"

definition GdcAdEventType_InsightOpened :: string where
  "GdcAdEventType_InsightOpened = ''insightOpened''"

definition GdcAdEventType_ClearFinished :: string where
  "GdcAdEventType_ClearFinished = ''clearFinished''"

definition GdcAdEventType_InsightSaved :: string where
  "GdcAdEventType_InsightSaved = ''visualizationSaved''"

definition GdcAdEventType_UndoFinished :: string where
  "GdcAdEventType_UndoFinished = ''undoFinished''"

definition GdcAdEventType_RedoFinished :: string where
  "GdcAdEventType_RedoFinished = ''redoFinished''"

definition GdcAdEventType_ExportFinished :: string where
  "GdcAdEventType_ExportFinished = ''exportInsightFinished''"

definition GdcAdEventType_Drill :: string where
  "GdcAdEventType_Drill = ''drill''"

definition GdcAdEventType_FilterContextChanged :: string where
  "GdcAdEventType_FilterContextChanged = ''filterContextChanged''"

definition GdcAdEventType_SetFilterContextFinished :: string where
  "GdcAdEventType_SetFilterContextFinished = ''setFilterContextFinished''"

definition GdcAdEventType_RemoveFilterContextFinished :: string where
  "GdcAdEventType_RemoveFilterContextFinished = ''removeFilterContextFinished''"

subsection \<open>The type guards of the namespace\<close>

text \<open>
  Each guard is one line of the shape
  \<^verbatim>\<open>return getEventType(obj) === GdcAdCommandType.Save;\<close>
  The members SetFilterContext, RemoveFilterContext, ClearFinished, FilterContextChanged,
  SetFilterContextFinished and RemoveFilterContextFinished and the three guards on them
  are those of the later revision of the file that the sources also hold.
\<close>

definition EmbeddedAnalyticalDesigner_isAdCommandFailedData :: "jsval \<Rightarrow> error + bool" where
  "EmbeddedAnalyticalDesigner_isAdCommandFailedData obj = isCommandFailedData obj"

definition EmbeddedAnalyticalDesigner_isDrillableItemsCommandData :: "jsval \<Rightarrow> error + bool" where
  "EmbeddedAnalyticalDesigner_isDrillableItemsCommandData obj = strictEq (getEventType obj) GdcAdCommandType_DrillableItems"

definition EmbeddedAnalyticalDesigner_isOpenInsightCommandData :: "jsval \<Rightarrow> error + bool" where
  "EmbeddedAnalyticalDesigner_isOpenInsightCommandData obj = strictEq (getEventType obj) GdcAdCommandType_OpenInsight"

definition EmbeddedAnalyticalDesigner_isClearCommandData :: "jsval \<Rightarrow> error + bool" where
  "EmbeddedAnalyticalDesigner_isClearCommandData obj = strictEq (getEventType obj) GdcAdCommandType_Clear"

definition EmbeddedAnalyticalDesigner_isSaveInsightCommandData :: "jsval \<Rightarrow> error + bool" where
  "EmbeddedAnalyticalDesigner_isSaveInsightCommandData obj = strictEq (getEventType obj) GdcAdCommandType_Save"

definition EmbeddedAnalyticalDesigner_isSaveAsInsightCommandData :: "jsval \<Rightarrow> error + bool" where
  "EmbeddedAnalyticalDesigner_isSaveAsInsightCommandData obj = strictEq (getEventType obj) GdcAdCommandType_SaveAs"

definition EmbeddedAnalyticalDesigner_isExportInsightCommandData :: "jsval \<Rightarrow> error + bool" where
  "EmbeddedAnalyticalDesigner_isExportInsightCommandData obj = strictEq (getEventType obj) GdcAdCommandType_Export"

definition EmbeddedAnalyticalDesigner_isUndoCommandData :: "jsval \<Rightarrow> error + bool" where
  "EmbeddedAnalyticalDesigner_isUndoCommandData obj = strictEq (getEventType obj) GdcAdCommandType_Undo"

definition EmbeddedAnalyticalDesigner_isRedoCommandData :: "jsval \<Rightarrow> error + bool" where
  "EmbeddedAnalyticalDesigner_isRedoCommandData obj = strictEq (getEventType obj) GdcAdCommandType_Redo"

definition EmbeddedAnalyticalDesigner_isSetFilterContextCommandData :: "jsval \<Rightarrow> error + bool" where
  "EmbeddedAnalyticalDesigner_isSetFilterContextCommandData obj = strictEq (getEventType obj) GdcAdCommandType_SetFilterContext"

definition EmbeddedAnalyticalDesigner_isRemoveFilterContextCommandData :: "jsval \<Rightarrow> error + bool" where
  "EmbeddedAnalyticalDesigner_isRemoveFilterContextCommandData obj = strictEq (getEventType obj) GdcAdCommandType_RemoveFilterContext"

definition EmbeddedAnalyticalDesigner_isNewInsightInitializedData :: "jsval \<Rightarrow> error + bool" where
  "EmbeddedAnalyticalDesigner_isNewInsightInitializedData obj = strictEq (getEventType obj) GdcAdEventType_NewInsightInitialized"

definition EmbeddedAnalyticalDesigner_isInsightOpenedData :: "jsval \<Rightarrow> error + bool" where
  "EmbeddedAnalyticalDesigner_isInsightOpenedData obj = strictEq (getEventType obj) GdcAdEventType_InsightOpened"

definition EmbeddedAnalyticalDesigner_isClearFinishedData :: "jsval \<Rightarrow> error + bool" where
  "EmbeddedAnalyticalDesigner_isClearFinishedData obj = strictEq (getEventType obj) GdcAdEventType_ClearFinished"

definition EmbeddedAnalyticalDesigner_isInsightSavedData :: "jsval \<Rightarrow> error + bool" where
  "EmbeddedAnalyticalDesigner_isInsightSavedData obj = strictEq (getEventType obj) GdcAdEventType_InsightSaved"

definition EmbeddedAnalyticalDesigner_isExportFinishedData :: "jsval \<Rightarrow> error + bool" where
  "EmbeddedAnalyticalDesigner_isExportFinishedData obj = strictEq (getEventType obj) GdcAdEventType_ExportFinished"

definition EmbeddedAnalyticalDesigner_isUndoFinishedData :: "jsval \<Rightarrow> error + bool" where
  "EmbeddedAnalyticalDesigner_isUndoFinishedData obj = strictEq (getEventType obj) GdcAdEventType_UndoFinished"

definition EmbeddedAnalyticalDesigner_isRedoFinishedData :: "jsval \<Rightarrow> error + bool" where
  "EmbeddedAnalyticalDesigner_isRedoFinishedData obj = strictEq (getEventType obj) GdcAdEventType_RedoFinished"

section \<open>Namespace EmbeddedKpiDashboard\<close>

text \<open>
  The sources hold this namespace in the same file as \<^verbatim>\<open>getEventType\<close>, after
  the declarations of common.ts, from which it imports that function.
\<close>

subsection \<open>enum GdcKdCommandType\<close>

definition GdcKdCommandType_Save :: string where
  "GdcKdCommandType_Save = ''saveDashboard''"

definition GdcKdCommandType_CancelEdit :: string where
  "GdcKdCommandType_CancelEdit = ''cancelEdit''"

definition GdcKdCommandType_Delete :: string where
  "GdcKdCommandType_Delete = ''deleteDashboard''"

definition GdcKdCommandType_SwitchToEdit :: string where
  "GdcKdCommandType_SwitchToEdit = ''switchToEdit''"

definition GdcKdCommandType_DrillableItems :: string where
  "GdcKdCommandType_DrillableItems = ''drillableItems''"

definition GdcKdCommandType_SetSize :: string where
  "GdcKdCommandType_SetSize = ''setSize''"

definition GdcKdCommandType_AddWidget :: string where
  "GdcKdCommandType_AddWidget = ''addWidget''"

definition GdcKdCommandType_AddFilter :: string where
  "GdcKdCommandType_AddFilter = ''addFilter''"

definition GdcKdCommandType_ExportToPdf :: string where
  "GdcKdCommandType_ExportToPdf = ''exportToPdf''"

subsection \<open>enum GdcKdEventType\<close>

definition GdcKdEventType_ListeningForDrillableItems :: string where
  "GdcKdEventType_ListeningForDrillableItems = ''listeningForDrillableItems''"

definition GdcKdEventType_LoadingStarted :: string where
  "GdcKdEventType_LoadingStarted = ''loadingStarted''"

definition GdcKdEventType_NoPermissions :: string where
  "GdcKdEventType_NoPermissions = ''noPermissions''"

definition GdcKdEventType_Resized :: string where
  "GdcKdEventType_Resized = ''resized''"

definition GdcKdEventType_DashboardCreated :: string where
  "GdcKdEventType_DashboardCreated = ''dashboardCreated''"

definition GdcKdEventType_DashboardLoaded :: string where
  "GdcKdEventType_DashboardLoaded = ''loaded''"

definition GdcKdEventType_DashboardUpdated :: string where
  "GdcKdEventType_DashboardUpdated = ''dashboardUpdated''"

definition GdcKdEventType_DashboardSaved :: string where
  "GdcKdEventType_DashboardSaved = ''dashboardSaved''"

definition GdcKdEventType_DashboardDeleted :: string where
  "GdcKdEventType_DashboardDeleted = ''dashboardDeleted''"

definition GdcKdEventType_DashboardCreationCanceled :: string where
  "GdcKdEventType_DashboardCreationCanceled = ''dashboardCreationCanceled''"

definition GdcKdEventType_SwitchedToEdit :: string where
  "GdcKdEventType_SwitchedToEdit = ''switchedToEdit''"

definition GdcKdEventType_SwitchedToView :: string where
  "GdcKdEventType_SwitchedToView = ''switchedToView''"

definition GdcKdEventType_Platform :: string where
  "GdcKdEventType_Platform = ''platform''"

definition GdcKdEventType_WidgetAdded :: string where
  "GdcKdEventType_WidgetAdded = ''widgetAdded''"

definition GdcKdEventType_FilterAdded :: string where
  "GdcKdEventType_FilterAdded = ''filterAdded''"

definition GdcKdEventType_ExportedToPdf :: string where
  "GdcKdEventType_ExportedToPdf = ''exportedToPdf''"

definition GdcKdEventType_Drill :: string where
  "GdcKdEventType_Drill = ''drill''"

subsection \<open>The type guards of the namespace\<close>

definition EmbeddedKpiDashboard_isSaveDashboardCommandData :: "jsval \<Rightarrow> error + bool" where
  "EmbeddedKpiDashboard_isSaveDashboardCommandData obj = strictEq (getEventType obj) GdcKdCommandType_Save"

definition EmbeddedKpiDashboard_isCancelEditCommandData :: "jsval \<Rightarrow> error + bool" where
  "EmbeddedKpiDashboard_isCancelEditCommandData obj = strictEq (getEventType obj) GdcKdCommandType_CancelEdit"

definition EmbeddedKpiDashboard_isSwitchToEditCommandData :: "jsval \<Rightarrow> error + bool" where
  "EmbeddedKpiDashboard_isSwitchToEditCommandData obj = strictEq (getEventType obj) GdcKdCommandType_SwitchToEdit"

definition EmbeddedKpiDashboard_isDrillableItemsCommandData :: "jsval \<Rightarrow> error + bool" where
  "EmbeddedKpiDashboard_isDrillableItemsCommandData obj = strictEq (getEventType obj) GdcKdCommandType_DrillableItems"

definition EmbeddedKpiDashboard_isSetSizeCommandData :: "jsval \<Rightarrow> error + bool" where
  "EmbeddedKpiDashboard_isSetSizeCommandData obj = strictEq (getEventType obj) GdcKdCommandType_SetSize"

definition EmbeddedKpiDashboard_isAddWidgetCommandData :: "jsval \<Rightarrow> error + bool" where
  "EmbeddedKpiDashboard_isAddWidgetCommandData obj = strictEq (getEventType obj) GdcKdCommandType_AddWidget"

definition EmbeddedKpiDashboard_isAddFilterCommandData :: "jsval \<Rightarrow> error + bool" where
  "EmbeddedKpiDashboard_isAddFilterCommandData obj = strictEq (getEventType obj) GdcKdCommandType_AddFilter"

definition EmbeddedKpiDashboard_isExportToPdfCommandData :: "jsval \<Rightarrow> error + bool" where
  "EmbeddedKpiDashboard_isExportToPdfCommandData obj = strictEq (getEventType obj) GdcKdCommandType_ExportToPdf"

text \<open>
  The two guards on insight references return the property itself, not a boolean:
  \<^verbatim>\<open>
  export function isIdentifierInsight(obj: any): obj is IIdentifierInsightRef {
      return obj.identifier;
  }
  export function isUriInsight(obj: any): obj is IUriInsightRef {
      return obj.uri;
  }
  \<close>
\<close>

definition EmbeddedKpiDashboard_isIdentifierInsight :: "jsval \<Rightarrow> error + jsval" where
  "EmbeddedKpiDashboard_isIdentifierInsight obj = Get obj ''identifier''"

definition EmbeddedKpiDashboard_isUriInsight :: "jsval \<Rightarrow> error + jsval" where
  "EmbeddedKpiDashboard_isUriInsight obj = Get obj ''uri''"

section \<open>VisualizationObject.ts: namespace VisualizationObject\<close>

text \<open>
  Modelled from the spec: \<^verbatim>\<open>isEmpty\<close> is imported from lodash
  (\<^verbatim>\<open>import isEmpty = require('lodash/isEmpty')\<close>) and is not among the sources. The
  spec calls a value non-empty when it "has at least one declared property" and asks
  that "fully-empty objects" be rejected "without throwing". For the other values the
  model follows lodash's documentation: \<^verbatim>\<open>null\<close> and \<^verbatim>\<open>undefined\<close> are empty,
  strings and arrays are empty when their length is 0, and a number or a boolean, which
  has no own enumerable property, is empty.
\<close>

fun isEmpty :: "jsval \<Rightarrow> bool" where
  "isEmpty JUndefined = True"
| "isEmpty JNull = True"
| "isEmpty (JBool b) = True"
| "isEmpty (JNum n) = True"
| "isEmpty (JStr s) = (s = [])"
| "isEmpty (JArr xs) = (xs = [])"
| "isEmpty (JObj ps) = (ps = [])"

text \<open>\<^verbatim>\<open>(v as T).k !== undefined\<close>: the read may raise, the comparison cannot.\<close>

definition definedProp :: "jsval \<Rightarrow> string \<Rightarrow> error + bool" where
  "definedProp v k = (case Get v k of Inl e \<Rightarrow> Inl e | Inr w \<Rightarrow> Inr (w \<noteq> JUndefined))"

text \<open>
  \<^verbatim>\<open>a && b\<close> and \<^verbatim>\<open>a || b\<close> on booleans: the right operand is evaluated only
  when the left one does not decide, so an exception of the right operand is raised only
  then.
\<close>

definition andAlso :: "error + bool \<Rightarrow> error + bool \<Rightarrow> error + bool" where
  "andAlso a b = (case a of Inl e \<Rightarrow> Inl e | Inr l \<Rightarrow> (if l then b else Inr False))"

definition orElse :: "error + bool \<Rightarrow> error + bool \<Rightarrow> error + bool" where
  "orElse a b = (case a of Inl e \<Rightarrow> Inl e | Inr l \<Rightarrow> (if l then Inr True else b))"

text \<open>
  The guards of one marker are all of the shape
  \<^verbatim>\<open>
  export function isMeasure(bucketItem: IMeasure | IVisualizationAttribute): bucketItem is IMeasure {
      return !isEmpty(bucketItem) && (bucketItem as IMeasure).measure !== undefined;
  }
  \<close>
\<close>

definition VisualizationObject_isMeasure :: "jsval \<Rightarrow> error + bool" where
  "VisualizationObject_isMeasure bucketItem =
     andAlso (Inr (\<not> isEmpty bucketItem)) (definedProp bucketItem ''measure'')"

definition VisualizationObject_isVisualizationAttribute :: "jsval \<Rightarrow> error + bool" where
  "VisualizationObject_isVisualizationAttribute bucketItem =
     andAlso (Inr (\<not> isEmpty bucketItem)) (definedProp bucketItem ''visualizationAttribute'')"

definition VisualizationObject_isMeasureDefinition :: "jsval \<Rightarrow> error + bool" where
  "VisualizationObject_isMeasureDefinition definition =
     andAlso (Inr (\<not> isEmpty definition)) (definedProp definition ''measureDefinition'')"

definition VisualizationObject_isArithmeticMeasureDefinition :: "jsval \<Rightarrow> error + bool" where
  "VisualizationObject_isArithmeticMeasureDefinition definition =
     andAlso (Inr (\<not> isEmpty definition)) (definedProp definition ''arithmeticMeasure'')"

definition VisualizationObject_isPopMeasureDefinition :: "jsval \<Rightarrow> error + bool" where
  "VisualizationObject_isPopMeasureDefinition definition =
     andAlso (Inr (\<not> isEmpty definition)) (definedProp definition ''popMeasureDefinition'')"

definition VisualizationObject_isPreviousPeriodMeasureDefinition :: "jsval \<Rightarrow> error + bool" where
  "VisualizationObject_isPreviousPeriodMeasureDefinition definition =
     andAlso (Inr (\<not> isEmpty definition)) (definedProp definition ''previousPeriodMeasure'')"

text \<open>
  \<^verbatim>\<open>
  export function isAttributeFilter(filter: VisualizationObjectFilter): filter is VisualizationObjectAttributeFilter {
      return !isEmpty(filter) && (
          (filter as IVisualizationObjectPositiveAttributeFilter).positiveAttributeFilter !== undefined
          || (filter as IVisualizationObjectNegativeAttributeFilter).negativeAttributeFilter !== undefined
      );
  }
  \<close>
  and likewise \<^verbatim>\<open>isDateFilter\<close> on \<^verbatim>\<open>absoluteDateFilter\<close> and \<^verbatim>\<open>relativeDateFilter\<close>.
\<close>

definition VisualizationObject_isAttributeFilter :: "jsval \<Rightarrow> error + bool" where
  "VisualizationObject_isAttributeFilter filter' =
     andAlso (Inr (\<not> isEmpty filter'))
       (orElse (definedProp filter' ''positiveAttributeFilter'')
               (definedProp filter' ''negativeAttributeFilter''))"

definition VisualizationObject_isDateFilter :: "jsval \<Rightarrow> error + bool" where
  "VisualizationObject_isDateFilter filter' =
     andAlso (Inr (\<not> isEmpty filter'))
       (orElse (definedProp filter' ''absoluteDateFilter'')
               (definedProp filter' ''relativeDateFilter''))"

definition VisualizationObject_isPositiveAttributeFilter :: "jsval \<Rightarrow> error + bool" where
  "VisualizationObject_isPositiveAttributeFilter filter' =
     andAlso (Inr (\<not> isEmpty filter')) (definedProp filter' ''positiveAttributeFilter'')"

definition VisualizationObject_isMeasureValueFilter :: "jsval \<Rightarrow> error + bool" where
  "VisualizationObject_isMeasureValueFilter filter' =
     andAlso (Inr (\<not> isEmpty filter')) (definedProp filter' ''measureValueFilter'')"

definition VisualizationObject_isAbsoluteDateFilter :: "jsval \<Rightarrow> error + bool" where
  "VisualizationObject_isAbsoluteDateFilter filter' =
     andAlso (Inr (\<not> isEmpty filter')) (definedProp filter' ''absoluteDateFilter'')"

definition VisualizationObject_isRelativeDateFilter :: "jsval \<Rightarrow> error + bool" where
  "VisualizationObject_isRelativeDateFilter filter' =
     andAlso (Inr (\<not> isEmpty filter')) (definedProp filter' ''relativeDateFilter'')"

definition VisualizationObject_isAttribute :: "jsval \<Rightarrow> error + bool" where
  "VisualizationObject_isAttribute bucketItem =
     andAlso (Inr (\<not> isEmpty bucketItem)) (definedProp bucketItem ''visualizationAttribute'')"

definition VisualizationObject_isLocalIdentifierQualifier :: "jsval \<Rightarrow> error + bool" where
  "VisualizationObject_isLocalIdentifierQualifier objectQualifier =
     andAlso (Inr (\<not> isEmpty objectQualifier)) (definedProp objectQualifier ''localIdentifier'')"

definition VisualizationObject_isComparisonCondition :: "jsval \<Rightarrow> error + bool" where
  "VisualizationObject_isComparisonCondition condition =
     andAlso (Inr (\<not> isEmpty condition)) (definedProp condition ''comparison'')"

definition VisualizationObject_isRangeCondition :: "jsval \<Rightarrow> error + bool" where
  "VisualizationObject_isRangeCondition condition =
     andAlso (Inr (\<not> isEmpty condition)) (definedProp condition ''range'')"

section \<open>index.ts: namespace AFM\<close>

text \<open>\<^verbatim>\<open>!!(v as T).k\<close>: the read may raise, the double negation cannot.\<close>

definition truthyProp :: "jsval \<Rightarrow> string \<Rightarrow> error + bool" where
  "truthyProp v k = (case Get v k of Inl e \<Rightarrow> Inl e | Inr w \<Rightarrow> Inr (ToBoolean w))"

text \<open>
  The guards are all of the shape
  \<^verbatim>\<open>
  export function isObjectUriQualifier(qualifier: AFM.ObjQualifier): qualifier is AFM.IObjUriQualifier {
      return !!(qualifier as AFM.IObjUriQualifier).uri;
  }
  \<close>
\<close>

definition AFM_isObjectUriQualifier :: "jsval \<Rightarrow> error + bool" where
  "AFM_isObjectUriQualifier qualifier = truthyProp qualifier ''uri''"

definition AFM_isSimpleMeasureDefinition :: "jsval \<Rightarrow> error + bool" where
  "AFM_isSimpleMeasureDefinition definition = truthyProp definition ''measure''"

definition AFM_isPopMeasureDefinition :: "jsval \<Rightarrow> error + bool" where
  "AFM_isPopMeasureDefinition definition = truthyProp definition ''popMeasure''"

definition AFM_isAttributeSortItem :: "jsval \<Rightarrow> error + bool" where
  "AFM_isAttributeSortItem sortItem = truthyProp sortItem ''attributeSortItem''"

definition AFM_isMeasureSortItem :: "jsval \<Rightarrow> error + bool" where
  "AFM_isMeasureSortItem sortItem = truthyProp sortItem ''measureSortItem''"

definition AFM_isMeasureLocatorItem :: "jsval \<Rightarrow> error + bool" where
  "AFM_isMeasureLocatorItem locator = truthyProp locator ''measureLocatorItem''"

definition AFM_isPositiveAttributeFilter :: "jsval \<Rightarrow> error + bool" where
  "AFM_isPositiveAttributeFilter filter' = truthyProp filter' ''positiveAttributeFilter''"

definition AFM_isNegativeAttributeFilter :: "jsval \<Rightarrow> error + bool" where
  "AFM_isNegativeAttributeFilter filter' = truthyProp filter' ''negativeAttributeFilter''"

section \<open>The exported guards, by namespace\<close>

type_synonym guard = "jsval \<Rightarrow> error + bool"

text \<open>
  The guards that compare the event name of an envelope with a literal, each under its
  qualified name in the source.
\<close>

definition event_guards :: "(string \<times> guard) list" where
  "event_guards =
     [(''isCommandFailedData'', isCommandFailedData),
      (''EmbeddedAnalyticalDesigner.isAdCommandFailedData'', EmbeddedAnalyticalDesigner_isAdCommandFailedData),
      (''EmbeddedAnalyticalDesigner.isDrillableItemsCommandData'', EmbeddedAnalyticalDesigner_isDrillableItemsCommandData),
      (''EmbeddedAnalyticalDesigner.isOpenInsightCommandData'', EmbeddedAnalyticalDesigner_isOpenInsightCommandData),
      (''EmbeddedAnalyticalDesigner.isClearCommandData'', EmbeddedAnalyticalDesigner_isClearCommandData),
      (''EmbeddedAnalyticalDesigner.isSaveInsightCommandData'', EmbeddedAnalyticalDesigner_isSaveInsightCommandData),
      (''EmbeddedAnalyticalDesigner.isSaveAsInsightCommandData'', EmbeddedAnalyticalDesigner_isSaveAsInsightCommandData),
      (''EmbeddedAnalyticalDesigner.isExportInsightCommandData'', EmbeddedAnalyticalDesigner_isExportInsightCommandData),
      (''EmbeddedAnalyticalDesigner.isUndoCommandData'', EmbeddedAnalyticalDesigner_isUndoCommandData),
      (''EmbeddedAnalyticalDesigner.isRedoCommandData'', EmbeddedAnalyticalDesigner_isRedoCommandData),
      (''EmbeddedAnalyticalDesigner.isSetFilterContextCommandData'', EmbeddedAnalyticalDesigner_isSetFilterContextCommandData),
      (''EmbeddedAnalyticalDesigner.isRemoveFilterContextCommandData'', EmbeddedAnalyticalDesigner_isRemoveFilterContextCommandData),
      (''EmbeddedAnalyticalDesigner.isNewInsightInitializedData'', EmbeddedAnalyticalDesigner_isNewInsightInitializedData),
      (''EmbeddedAnalyticalDesigner.isInsightOpenedData'', EmbeddedAnalyticalDesigner_isInsightOpenedData),
      (''EmbeddedAnalyticalDesigner.isClearFinishedData'', EmbeddedAnalyticalDesigner_isClearFinishedData),
      (''EmbeddedAnalyticalDesigner.isInsightSavedData'', EmbeddedAnalyticalDesigner_isInsightSavedData),
      (''EmbeddedAnalyticalDesigner.isExportFinishedData'', EmbeddedAnalyticalDesigner_isExportFinishedData),
      (''EmbeddedAnalyticalDesigner.isUndoFinishedData'', EmbeddedAnalyticalDesigner_isUndoFinishedData),
      (''EmbeddedAnalyticalDesigner.isRedoFinishedData'', EmbeddedAnalyticalDesigner_isRedoFinishedData),
      (''EmbeddedKpiDashboard.isSaveDashboardCommandData'', EmbeddedKpiDashboard_isSaveDashboardCommandData),
      (''EmbeddedKpiDashboard.isCancelEditCommandData'', EmbeddedKpiDashboard_isCancelEditCommandData),
      (''EmbeddedKpiDashboard.isSwitchToEditCommandData'', EmbeddedKpiDashboard_isSwitchToEditCommandData),
      (''EmbeddedKpiDashboard.isDrillableItemsCommandData'', EmbeddedKpiDashboard_isDrillableItemsCommandData),
      (''EmbeddedKpiDashboard.isSetSizeCommandData'', EmbeddedKpiDashboard_isSetSizeCommandData),
      (''EmbeddedKpiDashboard.isAddWidgetCommandData'', EmbeddedKpiDashboard_isAddWidgetCommandData),
      (''EmbeddedKpiDashboard.isAddFilterCommandData'', EmbeddedKpiDashboard_isAddFilterCommandData),
      (''EmbeddedKpiDashboard.isExportToPdfCommandData'', EmbeddedKpiDashboard_isExportToPdfCommandData)]"

text \<open>The guards of \<^verbatim>\<open>VisualizationObject\<close> on a single marker field, with that field.\<close>

definition VisualizationObject_marker_guards :: "(string \<times> guard) list" where
  "VisualizationObject_marker_guards =
     [(''measure'', VisualizationObject_isMeasure),
      (''visualizationAttribute'', VisualizationObject_isVisualizationAttribute),
      (''measureDefinition'', VisualizationObject_isMeasureDefinition),
      (''arithmeticMeasure'', VisualizationObject_isArithmeticMeasureDefinition),
      (''popMeasureDefinition'', VisualizationObject_isPopMeasureDefinition),
      (''previousPeriodMeasure'', VisualizationObject_isPreviousPeriodMeasureDefinition),
      (''positiveAttributeFilter'', VisualizationObject_isPositiveAttributeFilter),
      (''measureValueFilter'', VisualizationObject_isMeasureValueFilter),
      (''absoluteDateFilter'', VisualizationObject_isAbsoluteDateFilter),
      (''relativeDateFilter'', VisualizationObject_isRelativeDateFilter),
      (''visualizationAttribute'', VisualizationObject_isAttribute),
      (''localIdentifier'', VisualizationObject_isLocalIdentifierQualifier),
      (''comparison'', VisualizationObject_isComparisonCondition),
      (''range'', VisualizationObject_isRangeCondition)]"

text \<open>All guards of \<^verbatim>\<open>VisualizationObject\<close>: those and the two on a pair of markers.\<close>

definition VisualizationObject_guards :: "guard list" where
  "VisualizationObject_guards =
     map snd VisualizationObject_marker_guards @
     [VisualizationObject_isAttributeFilter, VisualizationObject_isDateFilter]"

text \<open>The guards of \<^verbatim>\<open>AFM\<close>, each with its marker field.\<close>

definition AFM_marker_guards :: "(string \<times> guard) list" where
  "AFM_marker_guards =
     [(''uri'', AFM_isObjectUriQualifier),
      (''measure'', AFM_isSimpleMeasureDefinition),
      (''popMeasure'', AFM_isPopMeasureDefinition),
      (''attributeSortItem'', AFM_isAttributeSortItem),
      (''measureSortItem'', AFM_isMeasureSortItem),
      (''measureLocatorItem'', AFM_isMeasureLocatorItem),
      (''positiveAttributeFilter'', AFM_isPositiveAttributeFilter),
      (''negativeAttributeFilter'', AFM_isNegativeAttributeFilter)]"

section \<open>The discriminated unions of the data model\<close>

text \<open>
  Each union of the data model whose variants have guards: the marker fields of its
  variants, and the guards on it, each with the markers of the variants it accepts.
  In order: \<^verbatim>\<open>AFM.MeasureDefinition\<close>, \<^verbatim>\<open>AFM.SortItem\<close>, \<^verbatim>\<open>AFM.LocatorItem\<close>,
  \<^verbatim>\<open>AFM.FilterItem\<close> (the attribute and date filters of \<^verbatim>\<open>AFM.CompatibilityFilter\<close>),
  \<^verbatim>\<open>VisualizationObject.BucketItem\<close>, \<^verbatim>\<open>VisualizationObject.IMeasureDefinitionType\<close>,
  \<^verbatim>\<open>VisualizationObject.VisualizationObjectExtendedFilter\<close> and
  \<^verbatim>\<open>VisualizationObject.MeasureValueFilterCondition\<close>. The namespace \<^verbatim>\<open>AFM\<close> exports
  no guard for \<^verbatim>\<open>attributeLocatorItem\<close> and none for the date filters, and
  \<^verbatim>\<open>VisualizationObject\<close> none for \<^verbatim>\<open>negativeAttributeFilter\<close> alone.
\<close>

type_synonym union_table = "string list \<times> (string list \<times> guard) list"

definition unions :: "union_table list" where
  "unions =
     [([''measure'', ''popMeasure''],
       [([''measure''], AFM_isSimpleMeasureDefinition),
        ([''popMeasure''], AFM_isPopMeasureDefinition)]),
      ([''attributeSortItem'', ''measureSortItem''],
       [([''attributeSortItem''], AFM_isAttributeSortItem),
        ([''measureSortItem''], AFM_isMeasureSortItem)]),
      ([''attributeLocatorItem'', ''measureLocatorItem''],
       [([''measureLocatorItem''], AFM_isMeasureLocatorItem)]),
      ([''positiveAttributeFilter'', ''negativeAttributeFilter'',
        ''absoluteDateFilter'', ''relativeDateFilter''],
       [([''positiveAttributeFilter''], AFM_isPositiveAttributeFilter),
        ([''negativeAttributeFilter''], AFM_isNegativeAttributeFilter)]),
      ([''measure'', ''visualizationAttribute''],
       [([''measure''], VisualizationObject_isMeasure),
        ([''visualizationAttribute''], VisualizationObject_isVisualizationAttribute),
        ([''visualizationAttribute''], VisualizationObject_isAttribute)]),
      ([''measureDefinition'', ''arithmeticMeasure'', ''popMeasureDefinition'',
        ''previousPeriodMeasure''],
       [([''measureDefinition''], VisualizationObject_isMeasureDefinition),
        ([''arithmeticMeasure''], VisualizationObject_isArithmeticMeasureDefinition),
        ([''popMeasureDefinition''], VisualizationObject_isPopMeasureDefinition),
        ([''previousPeriodMeasure''], VisualizationObject_isPreviousPeriodMeasureDefinition)]),
      ([''positiveAttributeFilter'', ''negativeAttributeFilter'',
        ''absoluteDateFilter'', ''relativeDateFilter'', ''measureValueFilter''],
       [([''positiveAttributeFilter'', ''negativeAttributeFilter''],
           VisualizationObject_isAttributeFilter),
        ([''absoluteDateFilter'', ''relativeDateFilter''], VisualizationObject_isDateFilter),
        ([''positiveAttributeFilter''], VisualizationObject_isPositiveAttributeFilter),
        ([''absoluteDateFilter''], VisualizationObject_isAbsoluteDateFilter),
        ([''relativeDateFilter''], VisualizationObject_isRelativeDateFilter),
        ([''measureValueFilter''], VisualizationObject_isMeasureValueFilter)]),
      ([''comparison'', ''range''],
       [([''comparison''], VisualizationObject_isComparisonCondition),
        ([''range''], VisualizationObject_isRangeCondition)])]"

section \<open>Vocabulary of the properties\<close>

text \<open>
  The definitions of this section are not code of the library: they name the inputs and
  the shapes that the properties below speak about.
\<close>

text \<open>
  The value at \<^verbatim>\<open>x.gdc.event.name\<close> when \<open>x\<close> has the three-level envelope shape
  (an object whose \<^verbatim>\<open>gdc\<close> is an object whose \<^verbatim>\<open>event\<close> is an object with a
  property \<^verbatim>\<open>name\<close>).
\<close>

definition envelope_name :: "jsval \<Rightarrow> jsval option" where
  "envelope_name x =
     (case x of
        JObj ps \<Rightarrow>
          (case map_of ps ''gdc'' of
             Some (JObj g) \<Rightarrow>
               (case map_of g ''event'' of
                  Some (JObj e) \<Rightarrow> map_of e ''name''
                | _ \<Rightarrow> None)
           | _ \<Rightarrow> None)
      | _ \<Rightarrow> None)"

text \<open>\<^verbatim>\<open>x.gdc\<close> is \<^verbatim>\<open>null\<close>, or \<^verbatim>\<open>x.gdc.event\<close> is.\<close>

definition null_level :: "jsval \<Rightarrow> bool" where
  "null_level x =
     (case x of
        JObj ps \<Rightarrow>
          (case map_of ps ''gdc'' of
             Some JNull \<Rightarrow> True
           | Some (JObj g) \<Rightarrow> map_of g ''event'' = Some JNull
           | _ \<Rightarrow> False)
      | _ \<Rightarrow> False)"

text \<open>
  The narrowing rule in the words of the specification:
  \<^verbatim>\<open>isVariantK(x) := x is object AND x is non-empty AND x.fieldK !== undefined\<close>.
\<close>

definition is_object :: "jsval \<Rightarrow> bool" where
  "is_object x = (case x of JObj ps \<Rightarrow> True | JArr xs \<Rightarrow> True | _ \<Rightarrow> False)"

definition spec_isVariant :: "string \<Rightarrow> jsval \<Rightarrow> bool" where
  "spec_isVariant fieldK x =
     (is_object x \<and> \<not> isEmpty x \<and> Get x fieldK \<noteq> Inr JUndefined)"

text \<open>\<^verbatim>\<open>null\<close> or \<^verbatim>\<open>undefined\<close>.\<close>

definition nullish :: "jsval \<Rightarrow> bool" where
  "nullish x = (x = JNull \<or> x = JUndefined)"

text \<open>
  \<^verbatim>\<open>null\<close>, \<^verbatim>\<open>undefined\<close>, a primitive (boolean, number or string) or the empty
  object \<^verbatim>\<open>{}\<close>.
\<close>

definition null_primitive_or_empty :: "jsval \<Rightarrow> bool" where
  "null_primitive_or_empty x =
     (case x of JArr xs \<Rightarrow> False | JObj ps \<Rightarrow> ps = [] | _ \<Rightarrow> True)"

text \<open>
  A value built as the variant with marker \<open>fieldK\<close> of a union with the given markers:
  an object whose \<open>fieldK\<close> holds an object (every marker field of the unions above is
  declared with an object type) and on which every other marker of the union reads as
  \<^verbatim>\<open>undefined\<close>.
\<close>

definition built_as :: "string list \<Rightarrow> string \<Rightarrow> jsval \<Rightarrow> bool" where
  "built_as markers fieldK v =
     (case v of
        JObj ps \<Rightarrow>
          (case obj_get ps fieldK of
             JObj body \<Rightarrow> list_all (\<lambda>j. j = fieldK \<or> obj_get ps j = JUndefined) markers
           | _ \<Rightarrow> False)
      | _ \<Rightarrow> False)"

text \<open>
  \<open>set_path ks w x\<close> is \<open>x\<close> with the property at the path \<open>ks\<close> set to \<open>w\<close>, when the
  objects along the path exist, and \<open>x\<close> otherwise. Two values differ only in
  \<^verbatim>\<open>gdc.product\<close> when one is \<open>with_product p\<close> of the other, and only in
  \<^verbatim>\<open>gdc.event.data\<close> when one is \<open>with_event_data d\<close> of the other.
\<close>

fun set_path :: "string list \<Rightarrow> jsval \<Rightarrow> jsval \<Rightarrow> jsval" where
  "set_path [] w x = x"
| "set_path [k] w x = (case x of JObj ps \<Rightarrow> JObj (AList.update k w ps) | _ \<Rightarrow> x)"
| "set_path (k # ks) w x =
     (case x of
        JObj ps \<Rightarrow>
          (case map_of ps k of
             Some (JObj qs) \<Rightarrow> JObj (AList.update k (set_path ks w (JObj qs)) ps)
           | _ \<Rightarrow> x)
      | _ \<Rightarrow> x)"

definition with_product :: "jsval \<Rightarrow> jsval \<Rightarrow> jsval" where
  "with_product p x = set_path [''gdc'', ''product''] p x"

definition with_event_data :: "jsval \<Rightarrow> jsval \<Rightarrow> jsval" where
  "with_event_data d x = set_path [''gdc'', ''event'', ''data''] d x"

subsection \<open>The scenarios of the specification\<close>

text \<open>
  \<^verbatim>\<open>{ gdc: { product: "analyticalDesigner",
           event: { name: "saveInsight", data: { title: "My Insight" } } } }\<close>
\<close>

definition saveInsight_message :: jsval where
  "saveInsight_message =
     JObj [(''gdc'', JObj [(''product'', JStr ''analyticalDesigner''),
                           (''event'', JObj [(''name'', JStr ''saveInsight''),
                                             (''data'', JObj [(''title'', JStr ''My Insight'')])])])]"

text \<open>
  \<^verbatim>\<open>{ measure: { localIdentifier: "m1",
               definition: { measure: { item: { identifier: "attr.revenue" } } } } }\<close>
\<close>

definition measure_scenario :: jsval where
  "measure_scenario =
     JObj [(''measure'',
            JObj [(''localIdentifier'', JStr ''m1''),
                  (''definition'',
                   JObj [(''measure'',
                          JObj [(''item'', JObj [(''identifier'', JStr ''attr.revenue'')])])])])]"

text \<open>
  \<^verbatim>\<open>{ positiveAttributeFilter: { displayForm: { identifier: "df1" }, in: ["a","b"] } }\<close>
\<close>

definition filter_scenario :: jsval where
  "filter_scenario =
     JObj [(''positiveAttributeFilter'',
            JObj [(''displayForm'', JObj [(''identifier'', JStr ''df1'')]),
                  (''in'', JArr [JStr ''a'', JStr ''b''])])]"

text \<open>
  A drillable-items command in the envelope of each product:
  \<^verbatim>\<open>{ gdc: { product: "dashboards", event: { name: "drillableItems" } } }\<close> and the same
  with \<^verbatim>\<open>product: "analyticalDesigner"\<close>.
\<close>

definition drillableItems_message :: "string \<Rightarrow> jsval" where
  "drillableItems_message product =
     JObj [(''gdc'', JObj [(''product'', JStr product),
                           (''event'', JObj [(''name'', JStr ''drillableItems'')])])]"

section \<open>Basic facts about the model\<close>

lemmas event_guard_defs =
  isCommandFailedData_def EmbeddedAnalyticalDesigner_isAdCommandFailedData_def
  EmbeddedAnalyticalDesigner_isDrillableItemsCommandData_def
  EmbeddedAnalyticalDesigner_isOpenInsightCommandData_def
  EmbeddedAnalyticalDesigner_isClearCommandData_def
  EmbeddedAnalyticalDesigner_isSaveInsightCommandData_def
  EmbeddedAnalyticalDesigner_isSaveAsInsightCommandData_def
  EmbeddedAnalyticalDesigner_isExportInsightCommandData_def
  EmbeddedAnalyticalDesigner_isUndoCommandData_def
  EmbeddedAnalyticalDesigner_isRedoCommandData_def
  EmbeddedAnalyticalDesigner_isSetFilterContextCommandData_def
  EmbeddedAnalyticalDesigner_isRemoveFilterContextCommandData_def
  EmbeddedAnalyticalDesigner_isNewInsightInitializedData_def
  EmbeddedAnalyticalDesigner_isInsightOpenedData_def
  EmbeddedAnalyticalDesigner_isClearFinishedData_def
  EmbeddedAnalyticalDesigner_isInsightSavedData_def
  EmbeddedAnalyticalDesigner_isExportFinishedData_def
  EmbeddedAnalyticalDesigner_isUndoFinishedData_def
  EmbeddedAnalyticalDesigner_isRedoFinishedData_def
  EmbeddedKpiDashboard_isSaveDashboardCommandData_def
  EmbeddedKpiDashboard_isCancelEditCommandData_def
  EmbeddedKpiDashboard_isSwitchToEditCommandData_def
  EmbeddedKpiDashboard_isDrillableItemsCommandData_def
  EmbeddedKpiDashboard_isSetSizeCommandData_def
  EmbeddedKpiDashboard_isAddWidgetCommandData_def
  EmbeddedKpiDashboard_isAddFilterCommandData_def
  EmbeddedKpiDashboard_isExportToPdfCommandData_def

lemmas event_name_defs =
  GdcEventType_AppCommandFailed_def
  GdcAdCommandType_DrillableItems_def GdcAdCommandType_OpenInsight_def GdcAdCommandType_Save_def
  GdcAdCommandType_SaveAs_def GdcAdCommandType_Export_def GdcAdCommandType_Clear_def
  GdcAdCommandType_Undo_def GdcAdCommandType_Redo_def GdcAdCommandType_SetFilterContext_def
  GdcAdCommandType_RemoveFilterContext_def
  GdcAdEventType_NewInsightInitialized_def GdcAdEventType_InsightOpened_def
  GdcAdEventType_ClearFinished_def GdcAdEventType_InsightSaved_def
  GdcAdEventType_ExportFinished_def GdcAdEventType_UndoFinished_def
  GdcAdEventType_RedoFinished_def
  GdcKdCommandType_Save_def GdcKdCommandType_CancelEdit_def GdcKdCommandType_SwitchToEdit_def
  GdcKdCommandType_DrillableItems_def GdcKdCommandType_SetSize_def
  GdcKdCommandType_AddWidget_def GdcKdCommandType_AddFilter_def GdcKdCommandType_ExportToPdf_def

lemmas VisualizationObject_guard_defs =
  VisualizationObject_isMeasure_def VisualizationObject_isVisualizationAttribute_def
  VisualizationObject_isMeasureDefinition_def VisualizationObject_isArithmeticMeasureDefinition_def
  VisualizationObject_isPopMeasureDefinition_def
  VisualizationObject_isPreviousPeriodMeasureDefinition_def
  VisualizationObject_isPositiveAttributeFilter_def VisualizationObject_isMeasureValueFilter_def
  VisualizationObject_isAbsoluteDateFilter_def VisualizationObject_isRelativeDateFilter_def
  VisualizationObject_isAttribute_def VisualizationObject_isLocalIdentifierQualifier_def
  VisualizationObject_isComparisonCondition_def VisualizationObject_isRangeCondition_def

lemmas AFM_guard_defs =
  AFM_isObjectUriQualifier_def AFM_isSimpleMeasureDefinition_def AFM_isPopMeasureDefinition_def
  AFM_isAttributeSortItem_def AFM_isMeasureSortItem_def AFM_isMeasureLocatorItem_def
  AFM_isPositiveAttributeFilter_def AFM_isNegativeAttributeFilter_def

text \<open>No key that the library reads is \<^verbatim>\<open>length\<close> or an index.\<close>

lemma not_index_keys [simp]:
  "\<not> is_index_key ''gdc''" "\<not> is_index_key ''event''" "\<not> is_index_key ''name''"
  "\<not> is_index_key ''identifier''" "\<not> is_index_key ''uri''"
  by (simp_all add: is_index_key_def)

lemma withDefault_JObj [simp]: "withDefault (JObj ps) d = JObj ps"
  by (simp add: withDefault_def)

lemma obj_get_Some: "map_of ps k = Some v \<Longrightarrow> obj_get ps k = v"
  by (simp add: obj_get_def)

lemma obj_get_update:
  "obj_get (AList.update k w ps) j = (if j = k then w else obj_get ps j)"
  by (simp add: obj_get_def update_conv')

lemma definedProp_simps:
  "definedProp (JObj ps) k = Inr (obj_get ps k \<noteq> JUndefined)"
  "definedProp (JBool b) k = Inr False"
  "definedProp (JNum n) k = Inr False"
  "k \<noteq> ''length'' \<Longrightarrow> \<not> is_index_key k \<Longrightarrow> definedProp (JStr s) k = Inr False"
  "k \<noteq> ''length'' \<Longrightarrow> \<not> is_index_key k \<Longrightarrow> definedProp (JArr xs) k = Inr False"
  by (simp_all add: definedProp_def)

lemma truthyProp_simps:
  "truthyProp (JObj ps) k = Inr (ToBoolean (obj_get ps k))"
  "truthyProp (JBool b) k = Inr False"
  "truthyProp (JNum n) k = Inr False"
  "truthyProp JNull k = Inl TypeError"
  "truthyProp JUndefined k = Inl TypeError"
  "k \<noteq> ''length'' \<Longrightarrow> \<not> is_index_key k \<Longrightarrow> truthyProp (JStr s) k = Inr False"
  "k \<noteq> ''length'' \<Longrightarrow> \<not> is_index_key k \<Longrightarrow> truthyProp (JArr xs) k = Inr False"
  by (simp_all add: truthyProp_def)

section \<open>The event name of an envelope\<close>

text \<open>
  C1. For every input \<open>x\<close> in which neither \<^verbatim>\<open>x.gdc\<close> nor \<^verbatim>\<open>x.gdc.event\<close> is
  \<^verbatim>\<open>null\<close> (so also for \<^verbatim>\<open>null\<close>, \<^verbatim>\<open>undefined\<close>, the primitives, \<^verbatim>\<open>{}\<close> and
  envelopes with only some levels present), \<^verbatim>\<open>getEventType(x)\<close> returns without raising.
  It returns the value of \<^verbatim>\<open>x.gdc.event.name\<close>, unchanged, when \<open>x\<close> has the
  three-level envelope shape and that value is not \<^verbatim>\<open>undefined\<close>: a string exactly when
  the name is a string. Otherwise it returns the empty string.
\<close>

theorem getEventType_without_null_level:
  assumes "\<not> null_level x"
  shows "getEventType x =
           Inr (case envelope_name x of
                  None \<Rightarrow> JStr ''''
                | Some v \<Rightarrow> if v = JUndefined then JStr '''' else v)"
proof (cases x)
  case (JObj ps)
  show ?thesis
  proof (cases "map_of ps ''gdc''")
    case None
    with JObj show ?thesis
      by (simp add: getEventType_def withDefault_def obj_get_def envelope_name_def)
  next
    case (Some g)
    show ?thesis
    proof (cases g)
      case (JObj gs)
      show ?thesis
      proof (cases "map_of gs ''event''")
        case None
        with \<open>x = JObj ps\<close> Some JObj show ?thesis
          by (simp add: getEventType_def withDefault_def obj_get_def envelope_name_def)
      next
        case (Some e)
        with \<open>x = JObj ps\<close> \<open>map_of ps ''gdc'' = Some g\<close> JObj assms show ?thesis
          by (cases e)
             (auto simp add: getEventType_def withDefault_def obj_get_def envelope_name_def
                null_level_def split: option.splits)
      qed
    qed (use \<open>x = JObj ps\<close> Some assms in
          \<open>auto simp add: getEventType_def withDefault_def obj_get_def envelope_name_def
                null_level_def\<close>)
  qed
qed (auto simp add: getEventType_def withDefault_def obj_get_def envelope_name_def)

text \<open>The theorem at the save command of the scenario, whose levels are all objects.\<close>

theorem getEventType_without_null_level_witness:
  "\<not> null_level saveInsight_message \<and>
   envelope_name saveInsight_message = Some (JStr ''saveInsight'') \<and>
   getEventType saveInsight_message = Inr (JStr ''saveInsight'')"
  using getEventType_without_null_level [of saveInsight_message]
  by (simp add: null_level_def envelope_name_def saveInsight_message_def)

text \<open>
  The defaults of the destructuring pattern replace \<^verbatim>\<open>undefined\<close> only. On
  \<^verbatim>\<open>{ gdc: null }\<close> and on \<^verbatim>\<open>{ gdc: { event: null } }\<close> the call raises TypeError, and
  on \<^verbatim>\<open>{ gdc: { event: { name: 42 } } }\<close> it returns the number 42, not a string.
\<close>

theorem getEventType_null_level_raises:
  "getEventType (JObj [(''gdc'', JNull)]) = Inl TypeError \<and>
   getEventType (JObj [(''gdc'', JObj [(''event'', JNull)])]) = Inl TypeError \<and>
   getEventType (JObj [(''gdc'', JObj [(''event'', JObj [(''name'', JNum (Finite 42))])])])
     = Inr (JNum (Finite 42))"
  by (simp add: getEventType_def withDefault_def obj_get_def)

lemma getEventType_null_primitive_or_empty:
  "null_primitive_or_empty x \<Longrightarrow> getEventType x = Inr (JStr '''')"
  by (cases x)
     (auto simp add: null_primitive_or_empty_def getEventType_def withDefault_def obj_get_def)

lemma event_guards_on_empty_name:
  assumes "getEventType x = Inr (JStr '''')"
  shows "\<forall>(name, g) \<in> set event_guards. g x = Inr False"
  unfolding event_guards_def
  by (simp add: event_guard_defs event_name_defs strictEq_def StrictEqualsString_def assms)

section \<open>The narrowing guards\<close>

lemma VisualizationObject_single_marker:
  assumes "k \<noteq> ''length''" "\<not> is_index_key k"
  shows "andAlso (Inr (\<not> isEmpty x)) (definedProp x k) = Inr (spec_isVariant k x)"
  using assms
  by (cases x) (auto simp add: andAlso_def definedProp_simps spec_isVariant_def is_object_def)

text \<open>
  C2. For every guard of \<^verbatim>\<open>VisualizationObject\<close> on a single marker field and for every
  input \<open>x\<close>, the guard returns true if and only if \<open>x\<close> is a non-empty object and
  \<^verbatim>\<open>x.fieldK\<close> is not \<^verbatim>\<open>undefined\<close>. The guards of \<^verbatim>\<open>AFM\<close> coerce the marker to a
  boolean instead: on every object \<open>x\<close> such a guard returns true if and only if
  \<^verbatim>\<open>x.fieldK\<close> is truthy.
\<close>

theorem marker_guards_characterised:
  "(\<forall>(fieldK, isVariantK) \<in> set VisualizationObject_marker_guards.
      isVariantK x = Inr (spec_isVariant fieldK x)) \<and>
   (\<forall>(fieldK, isVariantK) \<in> set AFM_marker_guards.
      isVariantK (JObj ps) = Inr (ToBoolean (obj_get ps fieldK)))"
proof
  show "\<forall>(fieldK, isVariantK) \<in> set VisualizationObject_marker_guards.
          isVariantK x = Inr (spec_isVariant fieldK x)"
    unfolding VisualizationObject_marker_guards_def
    by (simp add: VisualizationObject_guard_defs VisualizationObject_single_marker is_index_key_def)
  show "\<forall>(fieldK, isVariantK) \<in> set AFM_marker_guards.
          isVariantK (JObj ps) = Inr (ToBoolean (obj_get ps fieldK))"
    unfolding AFM_marker_guards_def
    by (simp add: AFM_guard_defs truthyProp_simps)
qed

text \<open>
  The theorem at \<^verbatim>\<open>VisualizationObject.isMeasure\<close> and \<^verbatim>\<open>AFM.isSimpleMeasureDefinition\<close>,
  on the measure of the scenario and on \<^verbatim>\<open>{ measure: 0 }\<close>.
\<close>

theorem marker_guards_characterised_witness:
  "(''measure'', VisualizationObject_isMeasure) \<in> set VisualizationObject_marker_guards \<and>
   (''measure'', AFM_isSimpleMeasureDefinition) \<in> set AFM_marker_guards \<and>
   spec_isVariant ''measure'' measure_scenario \<and>
   VisualizationObject_isMeasure measure_scenario = Inr True \<and>
   AFM_isSimpleMeasureDefinition (JObj [(''measure'', JNum (Finite 0))]) = Inr False"
  using marker_guards_characterised [of measure_scenario "[(''measure'', JNum (Finite 0))]"]
  by (simp add: VisualizationObject_marker_guards_def AFM_marker_guards_def spec_isVariant_def
        is_object_def measure_scenario_def obj_get_def)

text \<open>
  On \<^verbatim>\<open>{ measure: null }\<close>, a non-empty object whose \<^verbatim>\<open>measure\<close> is not
  \<^verbatim>\<open>undefined\<close>, \<^verbatim>\<open>AFM.isSimpleMeasureDefinition\<close> returns false.
\<close>

theorem AFM_guard_rejects_defined_marker:
  "spec_isVariant ''measure'' (JObj [(''measure'', JNull)]) \<and>
   AFM_isSimpleMeasureDefinition (JObj [(''measure'', JNull)]) = Inr False"
  by (simp add: AFM_isSimpleMeasureDefinition_def truthyProp_simps spec_isVariant_def
        is_object_def obj_get_def)

lemma VisualizationObject_guards_null_primitive_or_empty:
  assumes "null_primitive_or_empty x"
  shows "\<forall>g \<in> set VisualizationObject_guards. g x = Inr False"
proof -
  have single: "andAlso (Inr (\<not> isEmpty x)) (definedProp x k) = Inr False"
    if "k \<noteq> ''length''" "\<not> is_index_key k" for k
    using assms that
    by (cases x) (simp_all add: null_primitive_or_empty_def andAlso_def definedProp_simps)
  have pair: "andAlso (Inr (\<not> isEmpty x)) (orElse (definedProp x k) (definedProp x j)) = Inr False"
    if "k \<noteq> ''length''" "\<not> is_index_key k" "j \<noteq> ''length''" "\<not> is_index_key j" for k j
    using assms that
    by (cases x)
       (simp_all add: null_primitive_or_empty_def andAlso_def orElse_def definedProp_simps)
  show ?thesis
    unfolding VisualizationObject_guards_def VisualizationObject_marker_guards_def
    by (simp add: VisualizationObject_guard_defs VisualizationObject_isAttributeFilter_def
          VisualizationObject_isDateFilter_def single pair is_index_key_def)
qed

lemma AFM_guards_primitive_or_empty:
  assumes "null_primitive_or_empty x" "\<not> nullish x"
  shows "\<forall>(k, g) \<in> set AFM_marker_guards. g x = Inr False"
proof -
  have single: "truthyProp x k = Inr False" if "k \<noteq> ''length''" "\<not> is_index_key k" for k
    using assms that
    by (cases x)
       (simp_all add: null_primitive_or_empty_def nullish_def truthyProp_simps obj_get_def)
  show ?thesis
    unfolding AFM_marker_guards_def
    by (simp add: AFM_guard_defs single is_index_key_def)
qed

lemma insight_ref_guards_primitive_or_empty:
  assumes "null_primitive_or_empty x" "\<not> nullish x"
  shows "EmbeddedKpiDashboard_isIdentifierInsight x = Inr JUndefined"
    and "EmbeddedKpiDashboard_isUriInsight x = Inr JUndefined"
  using assms
  by (cases x;
      simp add: null_primitive_or_empty_def nullish_def
        EmbeddedKpiDashboard_isIdentifierInsight_def EmbeddedKpiDashboard_isUriInsight_def
        obj_get_def)+

text \<open>
  C3. Let \<open>x\<close> be \<^verbatim>\<open>null\<close>, \<^verbatim>\<open>undefined\<close>, a primitive or the empty object \<^verbatim>\<open>{}\<close>.
  Every guard of \<^verbatim>\<open>VisualizationObject\<close> and every guard on the event name of an
  envelope returns false on \<open>x\<close> and does not raise. When \<open>x\<close> is a primitive or
  \<^verbatim>\<open>{}\<close>, every guard of \<^verbatim>\<open>AFM\<close> returns false on \<open>x\<close>, and \<^verbatim>\<open>isIdentifierInsight\<close> and
  \<^verbatim>\<open>isUriInsight\<close> return a falsy value, without raising.
\<close>

theorem guards_on_null_primitive_or_empty:
  assumes "null_primitive_or_empty x"
  shows "(\<forall>g \<in> set VisualizationObject_guards. g x = Inr False) \<and>
         (\<forall>(name, g) \<in> set event_guards. g x = Inr False) \<and>
         (\<not> nullish x \<longrightarrow>
            (\<forall>(fieldK, g) \<in> set AFM_marker_guards. g x = Inr False) \<and>
            (\<exists>v. EmbeddedKpiDashboard_isIdentifierInsight x = Inr v \<and> \<not> ToBoolean v) \<and>
            (\<exists>v. EmbeddedKpiDashboard_isUriInsight x = Inr v \<and> \<not> ToBoolean v))"
proof -
  have "\<not> ToBoolean JUndefined" by simp
  with assms VisualizationObject_guards_null_primitive_or_empty
    event_guards_on_empty_name [OF getEventType_null_primitive_or_empty]
    AFM_guards_primitive_or_empty insight_ref_guards_primitive_or_empty
  show ?thesis by blast
qed

text \<open>The theorem at the empty object, for one guard of each family.\<close>

theorem guards_on_null_primitive_or_empty_witness:
  "null_primitive_or_empty (JObj []) \<and> \<not> nullish (JObj []) \<and>
   VisualizationObject_isMeasure (JObj []) = Inr False \<and>
   EmbeddedAnalyticalDesigner_isSaveInsightCommandData (JObj []) = Inr False \<and>
   AFM_isSimpleMeasureDefinition (JObj []) = Inr False \<and>
   EmbeddedKpiDashboard_isIdentifierInsight (JObj []) = Inr JUndefined"
  using guards_on_null_primitive_or_empty [of "JObj []"]
  by (simp add: null_primitive_or_empty_def nullish_def VisualizationObject_guards_def
        VisualizationObject_marker_guards_def event_guards_def AFM_marker_guards_def
        EmbeddedKpiDashboard_isIdentifierInsight_def obj_get_def)

text \<open>
  On \<^verbatim>\<open>null\<close> the guards of \<^verbatim>\<open>AFM\<close> and the guards on insight references read a
  property of \<^verbatim>\<open>null\<close> and raise TypeError. On \<^verbatim>\<open>{}\<close>, \<^verbatim>\<open>isIdentifierInsight\<close>
  returns the property it read, \<^verbatim>\<open>undefined\<close>, which is not the boolean false.
\<close>

theorem guards_raise_on_null:
  "AFM_isSimpleMeasureDefinition JNull = Inl TypeError \<and>
   EmbeddedKpiDashboard_isIdentifierInsight JNull = Inl TypeError \<and>
   EmbeddedKpiDashboard_isIdentifierInsight (JObj []) = Inr JUndefined"
  by (simp add: AFM_isSimpleMeasureDefinition_def truthyProp_simps
        EmbeddedKpiDashboard_isIdentifierInsight_def obj_get_def)

lemma built_as_JObj:
  assumes "built_as markers k v"
  obtains ps body where "v = JObj ps" "ps \<noteq> []" "obj_get ps k = JObj body"
    "\<And>j. j \<in> set markers \<Longrightarrow> j \<noteq> k \<Longrightarrow> obj_get ps j = JUndefined"
proof (cases v)
  case (JObj ps)
  from assms JObj obtain body where body: "obj_get ps k = JObj body"
    by (auto simp add: built_as_def split: jsval.splits)
  from body have "ps \<noteq> []" by (auto simp add: obj_get_def)
  moreover from assms JObj body
  have "\<And>j. j \<in> set markers \<Longrightarrow> j \<noteq> k \<Longrightarrow> obj_get ps j = JUndefined"
    by (auto simp add: built_as_def list_all_iff)
  ultimately show ?thesis using that JObj body by blast
qed (use assms in \<open>simp_all add: built_as_def\<close>)

text \<open>
  C4. For every discriminated union of the data model with guards (measure definitions,
  sort items, locator items, attribute and date filter kinds, measure-value-filter
  conditions, bucket items) and every value \<open>v\<close> built as its variant with marker
  \<open>fieldK\<close>, a guard of the union returns true on \<open>v\<close> when \<open>fieldK\<close> is the marker of a
  variant it accepts, and false when it is a guard for sibling variants only.
\<close>

theorem union_guards_exclusive:
  assumes "(markers, guards) \<in> set unions"
    and "fieldK \<in> set markers"
    and "built_as markers fieldK v"
    and "(accepted, isVariant) \<in> set guards"
  shows "isVariant v = Inr (fieldK \<in> set accepted)"
proof -
  from assms(3) obtain ps body where v: "v = JObj ps" "ps \<noteq> []" "obj_get ps fieldK = JObj body"
    and others: "\<forall>j \<in> set markers. j \<noteq> fieldK \<longrightarrow> obj_get ps j = JUndefined"
    by (auto elim: built_as_JObj)
  have defined: "definedProp v j = Inr (j = fieldK)" if "j \<in> set markers" for j
    using v others that by (cases "j = fieldK") (simp_all add: definedProp_simps)
  have truthy: "truthyProp v j = Inr (j = fieldK)" if "j \<in> set markers" for j
    using v others that by (cases "j = fieldK") (simp_all add: truthyProp_simps)
  have nonempty: "\<not> isEmpty v" using v by simp
  from assms(1,2,4) show ?thesis
    unfolding unions_def
    by (auto simp add: AFM_guard_defs VisualizationObject_guard_defs
          VisualizationObject_isAttributeFilter_def VisualizationObject_isDateFilter_def
          andAlso_def orElse_def nonempty defined truthy)
qed

text \<open>
  The theorem at the sort items of \<^verbatim>\<open>AFM\<close>, on
  \<^verbatim>\<open>{ attributeSortItem: { direction: "asc", attributeIdentifier: "a1" } }\<close>.
\<close>

theorem union_guards_exclusive_witness:
  "([''attributeSortItem'', ''measureSortItem''],
    [([''attributeSortItem''], AFM_isAttributeSortItem),
     ([''measureSortItem''], AFM_isMeasureSortItem)]) \<in> set unions \<and>
   built_as [''attributeSortItem'', ''measureSortItem''] ''attributeSortItem''
     (JObj [(''attributeSortItem'',
             JObj [(''direction'', JStr ''asc''), (''attributeIdentifier'', JStr ''a1'')])]) \<and>
   AFM_isAttributeSortItem
     (JObj [(''attributeSortItem'',
             JObj [(''direction'', JStr ''asc''), (''attributeIdentifier'', JStr ''a1'')])])
     = Inr True \<and>
   AFM_isMeasureSortItem
     (JObj [(''attributeSortItem'',
             JObj [(''direction'', JStr ''asc''), (''attributeIdentifier'', JStr ''a1'')])])
     = Inr False"
proof -
  let ?ms = "[''attributeSortItem'', ''measureSortItem'']"
  let ?gs = "[([''attributeSortItem''], AFM_isAttributeSortItem),
              ([''measureSortItem''], AFM_isMeasureSortItem)]"
  let ?v = "JObj [(''attributeSortItem'',
             JObj [(''direction'', JStr ''asc''), (''attributeIdentifier'', JStr ''a1'')])]"
  have u: "(?ms, ?gs) \<in> set unions" by (simp add: unions_def)
  have k: "''attributeSortItem'' \<in> set ?ms" by simp
  have b: "built_as ?ms ''attributeSortItem'' ?v" by (simp add: built_as_def obj_get_def)
  have g1: "([''attributeSortItem''], AFM_isAttributeSortItem) \<in> set ?gs" by simp
  have g2: "([''measureSortItem''], AFM_isMeasureSortItem) \<in> set ?gs" by simp
  from union_guards_exclusive [OF u k b g1] union_guards_exclusive [OF u k b g2] u b
  show ?thesis by simp
qed

section \<open>Scenarios and literals\<close>

text \<open>
  C5. On the save command of the scenario, \<^verbatim>\<open>getEventType\<close> returns
  \<^verbatim>\<open>"saveInsight"\<close>, \<^verbatim>\<open>EmbeddedAnalyticalDesigner.isSaveInsightCommandData\<close> returns
  true, and every other command or event guard of the two products returns false.
\<close>

theorem saveInsight_round_trip:
  "getEventType saveInsight_message = Inr (JStr ''saveInsight'') \<and>
   EmbeddedAnalyticalDesigner_isSaveInsightCommandData saveInsight_message = Inr True \<and>
   list_all (\<lambda>(name, g).
       g saveInsight_message =
         Inr (name = ''EmbeddedAnalyticalDesigner.isSaveInsightCommandData''))
     event_guards"
proof -
  have n: "getEventType saveInsight_message = Inr (JStr ''saveInsight'')"
    by (simp add: saveInsight_message_def getEventType_def withDefault_def obj_get_def)
  show ?thesis
    unfolding event_guards_def
    by (simp add: n event_guard_defs event_name_defs strictEq_def StrictEqualsString_def)
qed

text \<open>
  C6. The discriminator literals of the code are the documented wire values, character
  for character: the save command of the analytical designer, the drillable-items
  command of both products, the export-finished event, the dashboard-saved event and the
  four error codes.
\<close>

theorem wire_literals_verbatim:
  "GdcAdCommandType_Save = ''saveInsight'' \<and>
   GdcAdCommandType_DrillableItems = ''drillableItems'' \<and>
   GdcKdCommandType_DrillableItems = ''drillableItems'' \<and>
   GdcAdEventType_ExportFinished = ''exportInsightFinished'' \<and>
   GdcKdEventType_DashboardSaved = ''dashboardSaved'' \<and>
   GdcErrorType_InvalidCommand = ''error:invalidCommand'' \<and>
   GdcErrorType_InvalidArgument = ''error:invalidArgument'' \<and>
   GdcErrorType_InvalidState = ''error:invalidState'' \<and>
   GdcErrorType_RuntimeError = ''error:runtime''"
  by (simp add: GdcAdCommandType_Save_def GdcAdCommandType_DrillableItems_def
        GdcKdCommandType_DrillableItems_def GdcAdEventType_ExportFinished_def
        GdcKdEventType_DashboardSaved_def GdcErrorType_InvalidCommand_def
        GdcErrorType_InvalidArgument_def GdcErrorType_InvalidState_def
        GdcErrorType_RuntimeError_def)

text \<open>
  The scenario's measure carries the marker \<^verbatim>\<open>measure\<close> of \<^verbatim>\<open>AFM\<close>, not the marker
  \<^verbatim>\<open>measureDefinition\<close> of \<^verbatim>\<open>VisualizationObject.isMeasureDefinition\<close>, which is false
  on it.
\<close>

lemma measure_scenario_isMeasureDefinition:
  "VisualizationObject_isMeasureDefinition measure_scenario = Inr False"
  by (simp add: measure_scenario_def VisualizationObject_isMeasureDefinition_def
        definedProp_simps andAlso_def obj_get_def)

text \<open>
  C7. On the measure of the scenario, \<^verbatim>\<open>AFM.isSimpleMeasureDefinition\<close> returns true,
  and the period-over-period guards (\<^verbatim>\<open>AFM.isPopMeasureDefinition\<close>,
  \<^verbatim>\<open>VisualizationObject.isPopMeasureDefinition\<close>) and
  \<^verbatim>\<open>VisualizationObject.isArithmeticMeasureDefinition\<close> return false.
\<close>

theorem measure_scenario_guards:
  "AFM_isSimpleMeasureDefinition measure_scenario = Inr True \<and>
   AFM_isPopMeasureDefinition measure_scenario = Inr False \<and>
   VisualizationObject_isPopMeasureDefinition measure_scenario = Inr False \<and>
   VisualizationObject_isArithmeticMeasureDefinition measure_scenario = Inr False"
  by (simp add: measure_scenario_def AFM_guard_defs VisualizationObject_guard_defs
        truthyProp_simps definedProp_simps andAlso_def obj_get_def)

text \<open>
  C8. On the attribute filter of the scenario, the positive-attribute-filter guards of
  both namespaces return true, and \<^verbatim>\<open>AFM.isNegativeAttributeFilter\<close> and the date-filter
  guards (\<^verbatim>\<open>isDateFilter\<close>, \<^verbatim>\<open>isAbsoluteDateFilter\<close>, \<^verbatim>\<open>isRelativeDateFilter\<close>) return
  false.
\<close>

theorem filter_scenario_guards:
  "AFM_isPositiveAttributeFilter filter_scenario = Inr True \<and>
   VisualizationObject_isPositiveAttributeFilter filter_scenario = Inr True \<and>
   AFM_isNegativeAttributeFilter filter_scenario = Inr False \<and>
   VisualizationObject_isDateFilter filter_scenario = Inr False \<and>
   VisualizationObject_isAbsoluteDateFilter filter_scenario = Inr False \<and>
   VisualizationObject_isRelativeDateFilter filter_scenario = Inr False"
  by (simp add: filter_scenario_def AFM_guard_defs VisualizationObject_guard_defs
        VisualizationObject_isDateFilter_def
        truthyProp_simps definedProp_simps andAlso_def orElse_def obj_get_def)

text \<open>
  C10. \<^verbatim>\<open>AFM.isObjectUriQualifier\<close> classifies by the truthiness of \<^verbatim>\<open>uri\<close>, not by
  its definedness: on every object \<open>x\<close> (an array has no \<^verbatim>\<open>uri\<close>) it returns true if and
  only if \<^verbatim>\<open>x.uri\<close> is truthy, and on \<^verbatim>\<open>{ uri: "" }\<close>, where \<^verbatim>\<open>uri\<close> is present and is
  the empty string, it returns false.
\<close>

theorem isObjectUriQualifier_truthiness:
  "AFM_isObjectUriQualifier (JObj ps) = Inr (ToBoolean (obj_get ps ''uri'')) \<and>
   AFM_isObjectUriQualifier (JArr xs) = Inr False \<and>
   obj_get [(''uri'', JStr '''')] ''uri'' = JStr '''' \<and>
   AFM_isObjectUriQualifier (JObj [(''uri'', JStr '''')]) = Inr False"
  by (simp add: AFM_isObjectUriQualifier_def truthyProp_simps obj_get_def)

section \<open>The guards of the embedding protocol read the event name only\<close>

lemma getEventType_with_product:
  "getEventType (with_product p x) = getEventType x"
proof (cases x)
  case (JObj ps)
  show ?thesis
  proof (cases "map_of ps ''gdc''")
    case (Some g)
    then have "obj_get ps ''gdc'' = g" by (rule obj_get_Some)
    with JObj Some show ?thesis
      by (cases g) (simp_all add: with_product_def getEventType_def obj_get_update)
  qed (simp add: JObj with_product_def)
qed (simp_all add: with_product_def)

lemma getEventType_with_event_data:
  "getEventType (with_event_data d x) = getEventType x"
proof (cases x)
  case (JObj ps)
  show ?thesis
  proof (cases "map_of ps ''gdc''")
    case (Some g)
    then have g: "obj_get ps ''gdc'' = g" by (rule obj_get_Some)
    show ?thesis
    proof (cases g)
      case gs: (JObj gs)
      show ?thesis
      proof (cases "map_of gs ''event''")
        case None
        with JObj \<open>map_of ps ''gdc'' = Some g\<close> g gs show ?thesis
          by (simp add: with_event_data_def getEventType_def obj_get_update)
      next
        case (Some e)
        then have "obj_get gs ''event'' = e" by (rule obj_get_Some)
        with JObj \<open>map_of ps ''gdc'' = Some g\<close> g gs Some show ?thesis
          by (cases e) (simp_all add: with_event_data_def getEventType_def obj_get_update)
      qed
    qed (simp_all add: JObj Some with_event_data_def)
  qed (simp add: JObj with_event_data_def)
qed (simp_all add: with_event_data_def)

lemma Get_with_product:
  "k \<noteq> ''gdc'' \<Longrightarrow> Get (with_product p x) k = Get x k"
proof (cases x)
  case (JObj ps)
  assume "k \<noteq> ''gdc''"
  with JObj show ?thesis
    by (cases "map_of ps ''gdc''")
       (auto simp add: with_product_def obj_get_update split: jsval.splits)
qed (simp_all add: with_product_def)

lemma Get_with_event_data:
  "k \<noteq> ''gdc'' \<Longrightarrow> Get (with_event_data d x) k = Get x k"
proof (cases x)
  case (JObj ps)
  assume "k \<noteq> ''gdc''"
  with JObj show ?thesis
    by (cases "map_of ps ''gdc''")
       (auto simp add: with_event_data_def obj_get_update split: jsval.splits)
qed (simp_all add: with_event_data_def)

text \<open>
  C9. Every type guard of the embedding protocol on an envelope computes its result
  from the event name alone: it agrees on two inputs with the same event name, so also
  on two inputs that differ only in \<^verbatim>\<open>gdc.product\<close> or only in \<^verbatim>\<open>gdc.event.data\<close>
  (as do the two guards on insight references, which read neither). The drillable-items
  guards of the analytical designer and of the dashboards compare with the same literal
  \<^verbatim>\<open>'drillableItems'\<close>: both return true on an envelope that carries this event name,
  whichever product it names.
\<close>

theorem event_guards_read_the_name_only:
  "(\<forall>(name, g) \<in> set event_guards.
      (getEventType x = getEventType y \<longrightarrow> g x = g y) \<and>
      g (with_product p x) = g x \<and>
      g (with_event_data d x) = g x) \<and>
   EmbeddedKpiDashboard_isIdentifierInsight (with_product p x) =
     EmbeddedKpiDashboard_isIdentifierInsight x \<and>
   EmbeddedKpiDashboard_isIdentifierInsight (with_event_data d x) =
     EmbeddedKpiDashboard_isIdentifierInsight x \<and>
   EmbeddedKpiDashboard_isUriInsight (with_product p x) = EmbeddedKpiDashboard_isUriInsight x \<and>
   EmbeddedKpiDashboard_isUriInsight (with_event_data d x) = EmbeddedKpiDashboard_isUriInsight x \<and>
   (getEventType x = Inr (JStr ''drillableItems'') \<longrightarrow>
      EmbeddedAnalyticalDesigner_isDrillableItemsCommandData x = Inr True \<and>
      EmbeddedKpiDashboard_isDrillableItemsCommandData x = Inr True)"
  unfolding event_guards_def
  by (simp add: event_guard_defs getEventType_with_product getEventType_with_event_data
        Get_with_product Get_with_event_data
        EmbeddedKpiDashboard_isIdentifierInsight_def EmbeddedKpiDashboard_isUriInsight_def
        strictEq_def StrictEqualsString_def GdcAdCommandType_DrillableItems_def
        GdcKdCommandType_DrillableItems_def)

text \<open>
  The theorem at the drillable-items command in the envelope of the dashboards, and
  at the same command in the envelope of the analytical designer.
\<close>

theorem event_guards_read_the_name_only_witness:
  "getEventType (drillableItems_message ''dashboards'') = Inr (JStr ''drillableItems'') \<and>
   with_product (JStr ''analyticalDesigner'') (drillableItems_message ''dashboards'') =
     drillableItems_message ''analyticalDesigner'' \<and>
   EmbeddedAnalyticalDesigner_isDrillableItemsCommandData (drillableItems_message ''dashboards'')
     = Inr True \<and>
   EmbeddedKpiDashboard_isDrillableItemsCommandData (drillableItems_message ''dashboards'')
     = Inr True \<and>
   EmbeddedAnalyticalDesigner_isDrillableItemsCommandData
     (drillableItems_message ''analyticalDesigner'') = Inr True \<and>
   EmbeddedKpiDashboard_isDrillableItemsCommandData
     (drillableItems_message ''analyticalDesigner'') = Inr True"
proof -
  let ?x = "drillableItems_message ''dashboards''"
  have n: "getEventType ?x = Inr (JStr ''drillableItems'')"
    by (simp add: drillableItems_message_def getEventType_def withDefault_def obj_get_def)
  have p: "with_product (JStr ''analyticalDesigner'') ?x =
             drillableItems_message ''analyticalDesigner''"
    by (simp add: drillableItems_message_def with_product_def)
  from event_guards_read_the_name_only
         [of ?x ?x "JStr ''analyticalDesigner''" JUndefined] n p
  show ?thesis
    by (simp add: event_guards_def)
qed

end
